theory Spec2Isabelle
  imports Complex_Main "HOL-Library.Finite_Map"
begin

section \<open>The data model of \<^verbatim>\<open>mhcpp/core.h\<close>\<close>

text \<open>
  A member function of \<^verbatim>\<open>HyperCube\<close> either returns or throws. Its model takes the
  object's state and yields a value of \<open>error + \<dots>\<close>: \<open>Inr\<close> carries what the call returns
  together with the state it leaves behind, \<open>Inl\<close> an exception. The header contains no
  \<^verbatim>\<open>throw\<close> (and no early return), so every function embedded from it is an \<open>Inr\<close>; the
  names of the errors are those of the specification's taxonomy.
\<close>

datatype error =
  DomainError
  | UnknownVariableError
  | IncompatibleGeometryError
  | EmptyInputError
  | IncompatibleSystemError
  | IndexOutOfRangeError

type_synonym 'a result = "error + 'a"

text \<open>
  A \<^verbatim>\<open>double\<close> member of \<^verbatim>\<open>MMV\<close>. The default constructor \<^verbatim>\<open>MMV(){}\<close> has an empty
  initialiser list, so it leaves the three doubles without a value: \<open>Uninit\<close>. The type
  \<open>'v\<close> stands for \<^verbatim>\<open>double\<close>; the class only stores, copies, converts and returns such
  values.
\<close>

datatype 'v slot = Uninit | Init 'v

text \<open>
  Whatever the template parameter \<^verbatim>\<open>T\<close> is, \<^verbatim>\<open>Define\<close> takes doubles and \<^verbatim>\<open>MMV\<close> stores
  doubles. The getters return \<^verbatim>\<open>T\<close>, so their \<^verbatim>\<open>return\<close> converts the stored double to
  \<^verbatim>\<open>T\<close>; the setters take a \<^verbatim>\<open>T\<close>, so their assignment converts it to double. The type \<open>'t\<close>
  stands for \<^verbatim>\<open>T\<close>, and the two implicit conversions of C++ are the parameters
  \<open>T_of_double :: 'v \<Rightarrow> 't\<close> of a getter and \<open>double_of_T :: 't \<Rightarrow> 'v\<close> of a setter. For
  \<^verbatim>\<open>HyperCube<double>\<close> both are the identity \<open>id\<close>. For \<^verbatim>\<open>HyperCube<int>\<close>, with the reals
  standing for the doubles, they are the two functions below: the conversion of a double
  to \<^verbatim>\<open>int\<close> drops the fractional part (it is defined in C++ when the result fits an
  \<^verbatim>\<open>int\<close>), that of an \<^verbatim>\<open>int\<close> to double is exact.
\<close>

definition int_of_double :: "real \<Rightarrow> int" where
  "int_of_double x = (if 0 \<le> x then \<lfloor>x\<rfloor> else \<lceil>x\<rceil>)"

definition double_of_int :: "int \<Rightarrow> real" where
  "double_of_int i = of_int i"

text \<open>The private class \<^verbatim>\<open>HyperCube::MMV\<close>: \<^verbatim>\<open>string Name; double Min, Max, Value;\<close>\<close>

record 'v MMV =
  Name :: string
  Min_mmv :: "'v slot"
  Max_mmv :: "'v slot"
  Value :: "'v slot"

text \<open>\<^verbatim>\<open>MMV(){}\<close>: the name is the empty string, the doubles are not initialised.\<close>

definition MMV_default :: "'v MMV" where
  "MMV_default = \<lparr>Name = [], Min_mmv = Uninit, Max_mmv = Uninit, Value = Uninit\<rparr>"

text \<open>\<^verbatim>\<open>MMV(string name, double min, double max, double value)\<close>; the parameters
  \<^verbatim>\<open>min\<close>, \<^verbatim>\<open>max\<close> and \<^verbatim>\<open>value\<close> are written \<open>minv\<close>, \<open>maxv\<close> and \<open>val\<close>.\<close>

definition MMV_init :: "string \<Rightarrow> 'v \<Rightarrow> 'v \<Rightarrow> 'v \<Rightarrow> 'v MMV" where
  "MMV_init name minv maxv val =
     \<lparr>Name = name, Min_mmv = Init minv, Max_mmv = Init maxv, Value = Init val\<rparr>"

text \<open>
  The only data member of \<^verbatim>\<open>HyperCube\<close> is \<^verbatim>\<open>std::map<string, MMV> def\<close>: a finite map
  with one entry for each key.
\<close>

record 'v HyperCube =
  def :: "(string, 'v MMV) fmap"

text \<open>
  \<^verbatim>\<open>std::map::operator[]\<close>, which every accessor of \<^verbatim>\<open>HyperCube\<close> goes through: when the
  key is absent it inserts a default-constructed value first. The result is the entry
  the returned reference designates, and the map after the call.
\<close>

definition subscript :: "string \<Rightarrow> (string, 'v MMV) fmap \<Rightarrow> 'v MMV \<times> (string, 'v MMV) fmap" where
  "subscript k m =
     (case fmlookup m k of
        Some e \<Rightarrow> (e, m)
      | None \<Rightarrow> (MMV_default, fmupd k MMV_default m))"

subsection \<open>The member functions of \<^verbatim>\<open>HyperCube\<close>\<close>

text \<open>\<^verbatim>\<open>vector<string> GetVariableNames() { vector<string> res; return res; }\<close>\<close>

definition GetVariableNames :: "'v HyperCube \<Rightarrow> (string list \<times> 'v HyperCube) result" where
  "GetVariableNames h = Inr ([], h)"

text \<open>\<^verbatim>\<open>void Define(string name, double min, double max, double value)
  { def[name] = MMV(name, min, max, value); }\<close>: the arguments are doubles for every \<^verbatim>\<open>T\<close>.\<close>

definition Define :: "string \<Rightarrow> 'v \<Rightarrow> 'v \<Rightarrow> 'v \<Rightarrow> 'v HyperCube \<Rightarrow> 'v HyperCube result" where
  "Define name minv maxv val h =
     (let (e, m) = subscript name (def h)
      in Inr (h\<lparr>def := fmupd name (MMV_init name minv maxv val) m\<rparr>))"

text \<open>\<^verbatim>\<open>size_t Dimensions() { return def.size(); }\<close>\<close>

definition Dimensions :: "'v HyperCube \<Rightarrow> (nat \<times> 'v HyperCube) result" where
  "Dimensions h = Inr (fcard (fmdom (def h)), h)"

text \<open>\<^verbatim>\<open>T GetValue(string variableName) { return def[variableName].Value; }\<close> and its two
  siblings: the double that is read is converted to the return type \<^verbatim>\<open>T\<close> (a member
  without a value yields a result without a value).\<close>

definition GetValue ::
  "('v \<Rightarrow> 't) \<Rightarrow> string \<Rightarrow> 'v HyperCube \<Rightarrow> ('t slot \<times> 'v HyperCube) result" where
  "GetValue T_of_double variableName h =
     (let (e, m) = subscript variableName (def h)
      in Inr (map_slot T_of_double (Value e), h\<lparr>def := m\<rparr>))"

definition GetMaxValue ::
  "('v \<Rightarrow> 't) \<Rightarrow> string \<Rightarrow> 'v HyperCube \<Rightarrow> ('t slot \<times> 'v HyperCube) result" where
  "GetMaxValue T_of_double variableName h =
     (let (e, m) = subscript variableName (def h)
      in Inr (map_slot T_of_double (Max_mmv e), h\<lparr>def := m\<rparr>))"

definition GetMinValue ::
  "('v \<Rightarrow> 't) \<Rightarrow> string \<Rightarrow> 'v HyperCube \<Rightarrow> ('t slot \<times> 'v HyperCube) result" where
  "GetMinValue T_of_double variableName h =
     (let (e, m) = subscript variableName (def h)
      in Inr (map_slot T_of_double (Min_mmv e), h\<lparr>def := m\<rparr>))"

text \<open>\<^verbatim>\<open>void SetValue(string variableName, T value) { def[variableName].Value = value; }\<close>
  and its two siblings: the member is assigned, through the reference that \<^verbatim>\<open>operator[]\<close>
  returns, the \<^verbatim>\<open>T\<close> converted to double.\<close>

definition SetValue ::
  "('t \<Rightarrow> 'v) \<Rightarrow> string \<Rightarrow> 't \<Rightarrow> 'v HyperCube \<Rightarrow> 'v HyperCube result" where
  "SetValue double_of_T variableName val h =
     (let (e, m) = subscript variableName (def h)
      in Inr (h\<lparr>def := fmupd variableName (e\<lparr>Value := Init (double_of_T val)\<rparr>) m\<rparr>))"

definition SetMinValue ::
  "('t \<Rightarrow> 'v) \<Rightarrow> string \<Rightarrow> 't \<Rightarrow> 'v HyperCube \<Rightarrow> 'v HyperCube result" where
  "SetMinValue double_of_T variableName val h =
     (let (e, m) = subscript variableName (def h)
      in Inr (h\<lparr>def := fmupd variableName (e\<lparr>Min_mmv := Init (double_of_T val)\<rparr>) m\<rparr>))"

definition SetMaxValue ::
  "('t \<Rightarrow> 'v) \<Rightarrow> string \<Rightarrow> 't \<Rightarrow> 'v HyperCube \<Rightarrow> 'v HyperCube result" where
  "SetMaxValue double_of_T variableName val h =
     (let (e, m) = subscript variableName (def h)
      in Inr (h\<lparr>def := fmupd variableName (e\<lparr>Max_mmv := Init (double_of_T val)\<rparr>) m\<rparr>))"

text \<open>\<^verbatim>\<open>string GetConfigurationDescription() { return ""; }\<close>\<close>

definition GetConfigurationDescription :: "'v HyperCube \<Rightarrow> (string \<times> 'v HyperCube) result" where
  "GetConfigurationDescription h = Inr ([], h)"

text \<open>
  \<^verbatim>\<open>void ApplyConfiguration(void* system) {}\<close>: the body is empty, so the object that
  \<^verbatim>\<open>system\<close> points to (of any type \<open>'sys\<close>) is what it was before the call.
\<close>

definition ApplyConfiguration :: "'sys \<Rightarrow> 'v HyperCube \<Rightarrow> ('sys \<times> 'v HyperCube) result" where
  "ApplyConfiguration system h = Inr (system, h)"

text \<open>A freshly constructed \<^verbatim>\<open>HyperCube\<close>: the map is empty.\<close>

definition HyperCube_new :: "'v HyperCube" where
  "HyperCube_new = \<lparr>def = fmempty\<rparr>"

subsection \<open>\<^verbatim>\<open>FitnessAssignedScores\<close>\<close>

text \<open>
  \<^verbatim>\<open>template<typename T, typename TSys> class FitnessAssignedScores\<close> with its two members
  \<^verbatim>\<open>IObjectiveScores<TSys>* Scores\<close> and \<^verbatim>\<open>T FitnessValue\<close>. The scores are only carried,
  so what the pointer designates is a value of any type \<open>'s\<close>.
\<close>

record ('t, 's) FitnessAssignedScores =
  Scores :: 's
  FitnessValue :: 't

text \<open>
  \<^verbatim>\<open>return this->FitnessValue.CompareTo(other.FitnessValue);\<close> The header does not declare
  the \<^verbatim>\<open>CompareTo\<close> of the fitness type \<^verbatim>\<open>T\<close>: it is the parameter \<open>T_CompareTo\<close>.
\<close>

definition CompareTo ::
  "('t \<Rightarrow> 't \<Rightarrow> int) \<Rightarrow> ('t, 's) FitnessAssignedScores \<Rightarrow> ('t, 's) FitnessAssignedScores \<Rightarrow> int" where
  "CompareTo T_CompareTo this other = T_CompareTo (FitnessValue this) (FitnessValue other)"

text \<open>
  Modelled from the spec: the \<^verbatim>\<open>CompareTo\<close> of a numeric fitness type, which the header
  uses and does not define. The specification asks for the numeric ordering of the fitness
  values; as a three-way comparison that is a negative number, zero or a positive number
  for less, equal and greater.
\<close>

definition numeric_CompareTo :: "'t::linorder \<Rightarrow> 't \<Rightarrow> int" where
  "numeric_CompareTo x y = (if x < y then - 1 else if x = y then 0 else 1)"

subsection \<open>\<^verbatim>\<open>IObjectiveEvaluator\<close>\<close>

text \<open>
  An object of a class that implements \<^verbatim>\<open>IObjectiveEvaluator<TSysConf>\<close>: its
  \<^verbatim>\<open>EvaluateScore\<close> (pure virtual in the interface, so the class supplies it) and, when the
  class overrides the virtual \<^verbatim>\<open>IsCloneable\<close>, what its override returns.
\<close>

record ('c, 'r) IObjectiveEvaluator =
  EvaluateScore :: "'c \<Rightarrow> 'r"
  IsCloneable_override :: "bool option"

text \<open>The body in the interface: \<^verbatim>\<open>virtual bool IsCloneable() { return false; }\<close>\<close>

definition IObjectiveEvaluator_IsCloneable :: bool where
  "IObjectiveEvaluator_IsCloneable = False"

text \<open>The virtual call \<^verbatim>\<open>e.IsCloneable()\<close>: the override when there is one, the body of the
  interface otherwise.\<close>

definition IsCloneable :: "('c, 'r) IObjectiveEvaluator \<Rightarrow> bool" where
  "IsCloneable e =
     (case IsCloneable_override e of
        None \<Rightarrow> IObjectiveEvaluator_IsCloneable
      | Some b \<Rightarrow> b)"

subsection \<open>\<^verbatim>\<open>IHyperCubeOperations::GetCentroid\<close>\<close>

text \<open>
  Modelled from the spec: \<^verbatim>\<open>GetCentroid\<close> is pure virtual in \<^verbatim>\<open>IHyperCubeOperations\<close> and
  no class of the header implements it, so the operation follows the specification's
  \<open>centroid(points)\<close>. A point is the specification's ParameterSpace, an ordered mapping
  from a variable name to its triple (min, max, value), the values being real numbers.
  Two points have the same geometry when they hold the same (name, min, max) triples.
  The centroid of no point is an \<open>EmptyInputError\<close>, that of points whose geometry differs
  an \<open>IncompatibleGeometryError\<close>; otherwise it has the variables and the bounds of the
  points, and, for each variable, the arithmetic mean of the points' values.
\<close>

type_synonym ParameterSpace = "(string \<times> real \<times> real \<times> real) list"

text \<open>Modelled from the spec: the geometry of a point, its variables with their (min, max).\<close>

definition bounds :: "ParameterSpace \<Rightarrow> (string \<times> real \<times> real) list" where
  "bounds p = map (\<lambda>(k, minv, maxv, val). (k, minv, maxv)) p"

text \<open>Modelled from the spec: the value of a variable in a point (0 stands for a variable
  that the point does not have; the centroid never asks for one).\<close>

definition value_of :: "ParameterSpace \<Rightarrow> string \<Rightarrow> real" where
  "value_of p k = (case map_of p k of Some (minv, maxv, val) \<Rightarrow> val | None \<Rightarrow> 0)"

text \<open>Modelled from the spec: the arithmetic mean of the points' values for a variable.\<close>

definition mean_value :: "ParameterSpace list \<Rightarrow> string \<Rightarrow> real" where
  "mean_value points k = (\<Sum>q\<leftarrow>points. value_of q k) / real (length points)"

text \<open>Modelled from the spec: \<open>centroid(points)\<close>, the empty input being checked first.\<close>

definition GetCentroid :: "ParameterSpace list \<Rightarrow> ParameterSpace result" where
  "GetCentroid points =
     (case points of
        [] \<Rightarrow> Inl EmptyInputError
      | p # ps \<Rightarrow>
          if list_all (\<lambda>q. set (bounds q) = set (bounds p)) ps
          then Inr (map (\<lambda>(k, minv, maxv, val). (k, minv, maxv, mean_value points k)) p)
          else Inl IncompatibleGeometryError)"

section \<open>Properties of \<^verbatim>\<open>HyperCube\<close>\<close>

lemma subscript_defined:
  "fmlookup m k = Some e \<Longrightarrow> subscript k m = (e, m)"
  by (simp add: subscript_def)

lemma subscript_undefined:
  "fmlookup m k = None \<Longrightarrow> subscript k m = (MMV_default, fmupd k MMV_default m)"
  by (simp add: subscript_def)

lemma Define_eq:
  "Define name minv maxv val h = Inr (h\<lparr>def := fmupd name (MMV_init name minv maxv val) (def h)\<rparr>)"
  by (simp add: Define_def subscript_def split: option.split)

text \<open>
  C1 (as stated). The claim is that, for a hypercube, \<^verbatim>\<open>GetValue\<close> after \<^verbatim>\<open>Define\<close> returns
  exactly the value that was defined. For a \<^verbatim>\<open>HyperCube<int>\<close>, after
  \<^verbatim>\<open>Define("x", 0, 10, 2.5)\<close> the double 2.5 is stored and \<^verbatim>\<open>GetValue("x")\<close> returns the
  \<^verbatim>\<open>int\<close> 2.
\<close>

theorem Define_then_get_int_counterexample:
  "(0::real) \<le> 10
   \<and> Define ''x'' (0::real) 10 2.5 HyperCube_new
       = Inr \<lparr>def = fmupd ''x'' (MMV_init ''x'' 0 10 2.5) fmempty\<rparr>
   \<and> GetValue int_of_double ''x'' \<lparr>def = fmupd ''x'' (MMV_init ''x'' (0::real) 10 2.5) fmempty\<rparr>
       = Inr (Init 2, \<lparr>def = fmupd ''x'' (MMV_init ''x'' 0 10 2.5) fmempty\<rparr>)
   \<and> double_of_int 2 \<noteq> 2.5"
  by (simp add: Define_eq GetValue_def subscript_def MMV_init_def HyperCube_new_def
      int_of_double_def double_of_int_def)

text \<open>
  C1 (amended). After \<^verbatim>\<open>Define(name, min, max, value)\<close> with \<open>min \<le> max\<close>, the calls
  \<^verbatim>\<open>GetValue(name)\<close>, \<^verbatim>\<open>GetMinValue(name)\<close> and \<^verbatim>\<open>GetMaxValue(name)\<close> return \<open>value\<close>,
  \<open>min\<close> and \<open>max\<close> converted from double to \<^verbatim>\<open>T\<close>; for a \<^verbatim>\<open>HyperCube<double>\<close>, where the
  conversion is the identity, they return exactly \<open>value\<close>, \<open>min\<close> and \<open>max\<close>. None of the
  reads changes the hypercube.
\<close>

theorem Define_then_get:
  fixes minv maxv val :: "'v::ord" and T_of_double :: "'v \<Rightarrow> 't"
  assumes "minv \<le> maxv"
  shows "\<exists>h'. Define name minv maxv val h = Inr h'
           \<and> GetValue T_of_double name h' = Inr (Init (T_of_double val), h')
           \<and> GetMinValue T_of_double name h' = Inr (Init (T_of_double minv), h')
           \<and> GetMaxValue T_of_double name h' = Inr (Init (T_of_double maxv), h')
           \<and> GetValue id name h' = Inr (Init val, h')
           \<and> GetMinValue id name h' = Inr (Init minv, h')
           \<and> GetMaxValue id name h' = Inr (Init maxv, h')"
  by (simp add: Define_eq GetValue_def GetMinValue_def GetMaxValue_def subscript_def MMV_init_def)

theorem Define_then_get_witness:
  "(0::real) \<le> 10
   \<and> (\<exists>h'. Define ''x'' (0::real) 10 5 HyperCube_new = Inr h'
           \<and> GetValue int_of_double ''x'' h' = Inr (Init 5, h')
           \<and> GetMinValue int_of_double ''x'' h' = Inr (Init 0, h')
           \<and> GetMaxValue int_of_double ''x'' h' = Inr (Init 10, h')
           \<and> GetValue id ''x'' h' = Inr (Init 5, h')
           \<and> GetMinValue id ''x'' h' = Inr (Init 0, h')
           \<and> GetMaxValue id ''x'' h' = Inr (Init 10, h'))"
  using Define_then_get [where minv = "0::real" and maxv = 10 and name = "''x''" and val = 5
      and h = HyperCube_new and T_of_double = int_of_double]
  by (simp add: int_of_double_def)

text \<open>
  C2 (as stated). The claim is that a call leaving \<open>min > max\<close> fails with a
  \<open>DomainError\<close> and changes nothing. On a new hypercube, \<^verbatim>\<open>Define("x", 1, 0, 0)\<close>
  returns, and the hypercube then holds the variable with \<open>min = 1 > 0 = max\<close>.
\<close>

theorem Define_inverted_bounds_counterexample:
  "(0::real) < 1
   \<and> Define ''x'' (1::real) 0 0 HyperCube_new
       = Inr \<lparr>def = fmupd ''x'' (MMV_init ''x'' 1 0 0) fmempty\<rparr>
   \<and> Define ''x'' (1::real) 0 0 HyperCube_new \<noteq> Inl DomainError
   \<and> \<lparr>def = fmupd ''x'' (MMV_init ''x'' (1::real) 0 0) fmempty\<rparr> \<noteq> HyperCube_new"
  by (simp add: Define_eq HyperCube_new_def)

text \<open>
  C2 (amended). No bound is validated. With \<open>max < min\<close>: \<^verbatim>\<open>Define(name, min, max, value)\<close>
  returns and the hypercube then reports these bounds; when the variable is defined with
  maximum \<open>max\<close>, \<^verbatim>\<open>SetMinValue(name, min)\<close> returns and leaves the bounds \<open>min\<close> and \<open>max\<close>;
  when it is defined with minimum \<open>min\<close>, \<^verbatim>\<open>SetMaxValue(name, max)\<close> does the same.
  (\<^verbatim>\<open>HyperCube\<close> has no \<^verbatim>\<open>SetMinMaxValue\<close>: only \<^verbatim>\<open>IHyperCubeSetBounds\<close> declares one.)
  This holds for every \<^verbatim>\<open>T\<close>: \<open>min\<close> and \<open>max\<close> are the doubles that the map holds after the
  call (a setter's argument converted to double), and a getter reports them converted to
  \<^verbatim>\<open>T\<close>, which for a \<^verbatim>\<open>HyperCube<double>\<close> is the doubles themselves.
\<close>

theorem bounds_not_validated:
  fixes minv maxv val :: "'v::ord"
    and T_of_double :: "'v \<Rightarrow> 't" and double_of_T :: "'t \<Rightarrow> 'v"
  assumes "maxv < minv"
  shows "(\<exists>h'. Define name minv maxv val h = Inr h'
            \<and> GetMinValue T_of_double name h' = Inr (Init (T_of_double minv), h')
            \<and> GetMaxValue T_of_double name h' = Inr (Init (T_of_double maxv), h')
            \<and> GetMinValue id name h' = Inr (Init minv, h')
            \<and> GetMaxValue id name h' = Inr (Init maxv, h'))
       \<and> (\<forall>e v. fmlookup (def h) name = Some e \<and> Max_mmv e = Init maxv
              \<and> double_of_T v = minv \<longrightarrow>
            (\<exists>h'. SetMinValue double_of_T name v h = Inr h'
              \<and> GetMinValue T_of_double name h' = Inr (Init (T_of_double minv), h')
              \<and> GetMaxValue T_of_double name h' = Inr (Init (T_of_double maxv), h')
              \<and> GetMinValue id name h' = Inr (Init minv, h')
              \<and> GetMaxValue id name h' = Inr (Init maxv, h')))
       \<and> (\<forall>e v. fmlookup (def h) name = Some e \<and> Min_mmv e = Init minv
              \<and> double_of_T v = maxv \<longrightarrow>
            (\<exists>h'. SetMaxValue double_of_T name v h = Inr h'
              \<and> GetMinValue T_of_double name h' = Inr (Init (T_of_double minv), h')
              \<and> GetMaxValue T_of_double name h' = Inr (Init (T_of_double maxv), h')
              \<and> GetMinValue id name h' = Inr (Init minv, h')
              \<and> GetMaxValue id name h' = Inr (Init maxv, h')))
       \<and> (\<forall>e. fmlookup (def h) name = Some e \<and> Max_mmv e = Init maxv \<longrightarrow>
            (\<exists>h'. SetMinValue id name minv h = Inr h'
              \<and> GetMinValue id name h' = Inr (Init minv, h')
              \<and> GetMaxValue id name h' = Inr (Init maxv, h')))
       \<and> (\<forall>e. fmlookup (def h) name = Some e \<and> Min_mmv e = Init minv \<longrightarrow>
            (\<exists>h'. SetMaxValue id name maxv h = Inr h'
              \<and> GetMinValue id name h' = Inr (Init minv, h')
              \<and> GetMaxValue id name h' = Inr (Init maxv, h')))"
  by (simp add: Define_eq SetMinValue_def SetMaxValue_def GetMinValue_def GetMaxValue_def
      subscript_def MMV_init_def)

theorem bounds_not_validated_witness:
  "(10::real) < 20
   \<and> (\<exists>h'. Define ''x'' (20::real) 10 5 HyperCube_new = Inr h'
          \<and> GetMinValue id ''x'' h' = Inr (Init 20, h')
          \<and> GetMaxValue id ''x'' h' = Inr (Init 10, h'))
   \<and> fmlookup (def \<lparr>def = fmupd ''x'' (MMV_init ''x'' (0::real) 10 5) fmempty\<rparr>) ''x''
        = Some (MMV_init ''x'' 0 10 5)
   \<and> Max_mmv (MMV_init ''x'' (0::real) 10 5) = Init 10
   \<and> (\<exists>h'. SetMinValue id ''x'' 20 \<lparr>def = fmupd ''x'' (MMV_init ''x'' (0::real) 10 5) fmempty\<rparr>
            = Inr h'
          \<and> GetMinValue id ''x'' h' = Inr (Init 20, h')
          \<and> GetMaxValue id ''x'' h' = Inr (Init 10, h'))
   \<and> double_of_int 20 = 20
   \<and> (\<exists>h'. SetMinValue double_of_int ''x'' 20
              \<lparr>def = fmupd ''x'' (MMV_init ''x'' (0::real) 10 5) fmempty\<rparr> = Inr h'
          \<and> GetMinValue int_of_double ''x'' h' = Inr (Init 20, h')
          \<and> GetMaxValue int_of_double ''x'' h' = Inr (Init 10, h'))
   \<and> Min_mmv (MMV_init ''x'' (20::real) 30 25) = Init 20
   \<and> (\<exists>h'. SetMaxValue id ''x'' 10 \<lparr>def = fmupd ''x'' (MMV_init ''x'' (20::real) 30 25) fmempty\<rparr>
            = Inr h'
          \<and> GetMinValue id ''x'' h' = Inr (Init 20, h')
          \<and> GetMaxValue id ''x'' h' = Inr (Init 10, h'))"
proof -
  let ?h1 = "\<lparr>def = fmupd ''x'' (MMV_init ''x'' (0::real) 10 5) fmempty\<rparr>"
  let ?h2 = "\<lparr>def = fmupd ''x'' (MMV_init ''x'' (20::real) 30 25) fmempty\<rparr>"
  have lt: "(10::real) < 20"
    by simp
  have at_h1: "fmlookup (def ?h1) ''x'' = Some (MMV_init ''x'' 0 10 5)"
    by simp
  have max_h1: "Max_mmv (MMV_init ''x'' (0::real) 10 5) = Init 10"
    by (simp add: MMV_init_def)
  have at_h2: "fmlookup (def ?h2) ''x'' = Some (MMV_init ''x'' 20 30 25)"
    by simp
  have min_h2: "Min_mmv (MMV_init ''x'' (20::real) 30 25) = Init 20"
    by (simp add: MMV_init_def)
  have conv: "double_of_int 20 = 20"
    by (simp add: double_of_int_def)
  have trunc: "int_of_double 20 = 20" "int_of_double 10 = 10"
    by (simp_all add: int_of_double_def)
  note h0 = bounds_not_validated [OF lt, where name = "''x''" and val = 5
      and h = HyperCube_new and T_of_double = int_of_double and double_of_T = double_of_int]
  note h1 = bounds_not_validated [OF lt, where name = "''x''" and h = "?h1"
      and T_of_double = int_of_double and double_of_T = double_of_int]
  note h2 = bounds_not_validated [OF lt, where name = "''x''" and h = "?h2"
      and T_of_double = int_of_double and double_of_T = double_of_int]
  have by_Define: "\<exists>h'. Define ''x'' (20::real) 10 5 HyperCube_new = Inr h'
          \<and> GetMinValue id ''x'' h' = Inr (Init 20, h')
          \<and> GetMaxValue id ''x'' h' = Inr (Init 10, h')"
    using h0 [THEN conjunct1] by blast
  have by_SetMinValue: "\<exists>h'. SetMinValue id ''x'' 20 ?h1 = Inr h'
          \<and> GetMinValue id ''x'' h' = Inr (Init 20, h')
          \<and> GetMaxValue id ''x'' h' = Inr (Init 10, h')"
    using h1 [THEN conjunct2, THEN conjunct2, THEN conjunct2, THEN conjunct1] at_h1 max_h1
    by blast
  have by_SetMinValue_int: "\<exists>h'. SetMinValue double_of_int ''x'' 20 ?h1 = Inr h'
          \<and> GetMinValue int_of_double ''x'' h' = Inr (Init 20, h')
          \<and> GetMaxValue int_of_double ''x'' h' = Inr (Init 10, h')"
    using h1 [THEN conjunct2, THEN conjunct1] at_h1 max_h1 conv
    unfolding trunc by blast
  have by_SetMaxValue: "\<exists>h'. SetMaxValue id ''x'' 10 ?h2 = Inr h'
          \<and> GetMinValue id ''x'' h' = Inr (Init 20, h')
          \<and> GetMaxValue id ''x'' h' = Inr (Init 10, h')"
    using h2 [THEN conjunct2, THEN conjunct2, THEN conjunct2, THEN conjunct2] at_h2 min_h2
    by blast
  show ?thesis
    using lt at_h1 max_h1 min_h2 conv by_Define by_SetMinValue by_SetMinValue_int by_SetMaxValue
    by (intro conjI)
qed

text \<open>
  C3 (as stated). The claim is that reading or setting a name that is not defined fails
  with an \<open>UnknownVariableError\<close>. On a new hypercube, where \<^verbatim>\<open>"x"\<close> is not defined,
  \<^verbatim>\<open>GetValue("x")\<close> returns (an uninitialised double, out of an entry that the call
  inserts) and \<^verbatim>\<open>SetValue("x", 3)\<close> returns as well.
\<close>

theorem undefined_name_counterexample:
  "fmlookup (def (HyperCube_new :: real HyperCube)) ''x'' = None
   \<and> GetValue (id :: real \<Rightarrow> real) ''x'' HyperCube_new
       = Inr (Uninit, \<lparr>def = fmupd ''x'' MMV_default fmempty\<rparr>)
   \<and> GetValue (id :: real \<Rightarrow> real) ''x'' HyperCube_new \<noteq> Inl UnknownVariableError
   \<and> SetValue (id :: real \<Rightarrow> real) ''x'' 3 HyperCube_new \<noteq> Inl UnknownVariableError"
  by (simp add: GetValue_def SetValue_def subscript_def HyperCube_new_def MMV_default_def)

text \<open>
  C3 (amended). For a name that is not defined, \<^verbatim>\<open>GetValue\<close>, \<^verbatim>\<open>GetMinValue\<close>,
  \<^verbatim>\<open>GetMaxValue\<close> and \<^verbatim>\<open>SetValue\<close> do not fail: each getter returns the uninitialised
  double of a default-constructed entry, and \<^verbatim>\<open>SetValue(name, v)\<close> returns with the
  value stored, so that \<^verbatim>\<open>GetValue(name)\<close> then returns \<open>v\<close>. This holds for every \<^verbatim>\<open>T\<close>,
  where what is stored is \<open>v\<close> converted to double and what is returned is that double
  converted to \<^verbatim>\<open>T\<close>: \<open>v\<close> itself for a \<^verbatim>\<open>HyperCube<double>\<close>.
\<close>

theorem undefined_name_returns:
  fixes T_of_double :: "'v \<Rightarrow> 't" and double_of_T :: "'t \<Rightarrow> 'v" and v :: 't and w :: 'v
  assumes "fmlookup (def h) name = None"
  shows "(\<exists>h'. GetValue T_of_double name h = Inr (Uninit, h'))
       \<and> (\<exists>h'. GetMinValue T_of_double name h = Inr (Uninit, h'))
       \<and> (\<exists>h'. GetMaxValue T_of_double name h = Inr (Uninit, h'))
       \<and> (\<exists>h'. SetValue double_of_T name v h = Inr h'
            \<and> GetValue T_of_double name h' = Inr (Init (T_of_double (double_of_T v)), h'))
       \<and> (\<exists>h'. SetValue id name w h = Inr h' \<and> GetValue id name h' = Inr (Init w, h'))"
  using assms
  by (simp add: GetValue_def GetMinValue_def GetMaxValue_def SetValue_def subscript_def
      MMV_default_def)

theorem undefined_name_returns_witness:
  "fmlookup (def (HyperCube_new :: real HyperCube)) ''x'' = None
   \<and> (\<exists>h'. GetValue int_of_double ''x'' HyperCube_new = Inr (Uninit, h'))
   \<and> (\<exists>h'. GetMinValue int_of_double ''x'' HyperCube_new = Inr (Uninit, h'))
   \<and> (\<exists>h'. GetMaxValue int_of_double ''x'' HyperCube_new = Inr (Uninit, h'))
   \<and> (\<exists>h'. SetValue double_of_int ''x'' 3 HyperCube_new = Inr h'
          \<and> GetValue int_of_double ''x'' h' = Inr (Init 3, h'))
   \<and> (\<exists>h'. SetValue id ''x'' (3::real) HyperCube_new = Inr h'
          \<and> GetValue id ''x'' h' = Inr (Init 3, h'))"
  using undefined_name_returns [where h = "HyperCube_new :: real HyperCube" and name = "''x''"
      and v = 3 and w = 3 and T_of_double = int_of_double and double_of_T = double_of_int]
  by (simp add: HyperCube_new_def int_of_double_def double_of_int_def)

text \<open>A key that is new to the map makes it one entry larger.\<close>

lemma fcard_fmdom_fmupd_new:
  "fmlookup m k = None \<Longrightarrow> fcard (fmdom (fmupd k e m)) = Suc (fcard (fmdom m))"
  by (simp add: fcard_finsert_disjoint fmdom_notI)

text \<open>
  C9. For a name that is not defined, each of \<^verbatim>\<open>GetValue\<close>, \<^verbatim>\<open>GetMinValue\<close>,
  \<^verbatim>\<open>GetMaxValue\<close>, \<^verbatim>\<open>SetValue\<close>, \<^verbatim>\<open>SetMinValue\<close> and \<^verbatim>\<open>SetMaxValue\<close> returns; the map then
  holds, under that name, a default-constructed entry (with the one member assigned, for
  a setter), every other entry being as before, and \<^verbatim>\<open>Dimensions()\<close> is one more than
  it was. This holds for every \<^verbatim>\<open>T\<close>; the member that a setter assigns is its argument
  converted to double.
\<close>

theorem access_inserts_default:
  fixes T_of_double :: "'v \<Rightarrow> 't" and double_of_T :: "'t \<Rightarrow> 'v"
  assumes "fmlookup (def h) name = None"
  shows "(\<exists>h'. GetValue T_of_double name h = Inr (Uninit, h')
            \<and> def h' = fmupd name MMV_default (def h)
            \<and> Dimensions h' = Inr (Suc (fcard (fmdom (def h))), h'))
       \<and> (\<exists>h'. GetMinValue T_of_double name h = Inr (Uninit, h')
            \<and> def h' = fmupd name MMV_default (def h)
            \<and> Dimensions h' = Inr (Suc (fcard (fmdom (def h))), h'))
       \<and> (\<exists>h'. GetMaxValue T_of_double name h = Inr (Uninit, h')
            \<and> def h' = fmupd name MMV_default (def h)
            \<and> Dimensions h' = Inr (Suc (fcard (fmdom (def h))), h'))
       \<and> (\<exists>h'. SetValue double_of_T name v h = Inr h'
            \<and> def h' = fmupd name (MMV_default\<lparr>Value := Init (double_of_T v)\<rparr>) (def h)
            \<and> Dimensions h' = Inr (Suc (fcard (fmdom (def h))), h'))
       \<and> (\<exists>h'. SetMinValue double_of_T name v h = Inr h'
            \<and> def h' = fmupd name (MMV_default\<lparr>Min_mmv := Init (double_of_T v)\<rparr>) (def h)
            \<and> Dimensions h' = Inr (Suc (fcard (fmdom (def h))), h'))
       \<and> (\<exists>h'. SetMaxValue double_of_T name v h = Inr h'
            \<and> def h' = fmupd name (MMV_default\<lparr>Max_mmv := Init (double_of_T v)\<rparr>) (def h)
            \<and> Dimensions h' = Inr (Suc (fcard (fmdom (def h))), h'))"
proof -
  have n: "\<And>e. fcard (fmdom (fmupd name e (def h))) = Suc (fcard (fmdom (def h)))"
    using assms by (rule fcard_fmdom_fmupd_new)
  show ?thesis
    using assms n
    by (simp add: GetValue_def GetMinValue_def GetMaxValue_def SetValue_def SetMinValue_def
        SetMaxValue_def Dimensions_def subscript_def MMV_default_def del: fmdom_fmupd)
qed

theorem access_inserts_default_witness:
  "fmlookup (def (HyperCube_new :: real HyperCube)) ''x'' = None
   \<and> (\<exists>h'. GetValue (id :: real \<Rightarrow> real) ''x'' HyperCube_new = Inr (Uninit, h')
          \<and> def h' = fmupd ''x'' MMV_default fmempty
          \<and> Dimensions h' = Inr (1, h'))
   \<and> (\<exists>h'. SetMaxValue id ''x'' (3::real) HyperCube_new = Inr h'
          \<and> def h' = fmupd ''x'' (MMV_default\<lparr>Max_mmv := Init 3\<rparr>) fmempty
          \<and> Dimensions h' = Inr (1, h'))"
  using access_inserts_default [where h = "HyperCube_new :: real HyperCube" and name = "''x''"
      and v = 3 and T_of_double = "id :: real \<Rightarrow> real" and double_of_T = "id :: real \<Rightarrow> real"]
  by (simp add: HyperCube_new_def fcard_fempty)

text \<open>
  \<^verbatim>\<open>Define\<close> counts a name once: \<^verbatim>\<open>Dimensions()\<close> grows by one for a new name and stays
  for a name that is defined again.
\<close>

lemma Define_Dimensions:
  "\<exists>h'. Define name minv maxv val h = Inr h'
     \<and> Dimensions h' =
         Inr (if name |\<in>| fmdom (def h) then fcard (fmdom (def h))
              else Suc (fcard (fmdom (def h))), h')"
  by (simp add: Define_eq Dimensions_def fcard_finsert_if)

text \<open>
  C4. The claim is that \<^verbatim>\<open>GetVariableNames()\<close> returns the names that were defined, and
  \<^verbatim>\<open>Dimensions()\<close> their number. After \<^verbatim>\<open>Define("x", 0, 1, 0.5)\<close> on a new hypercube,
  \<^verbatim>\<open>Dimensions()\<close> returns 1 and \<^verbatim>\<open>GetVariableNames()\<close> returns the empty vector.
\<close>

theorem GetVariableNames_after_Define:
  "Define ''x'' (0::real) 1 0.5 HyperCube_new
     = Inr \<lparr>def = fmupd ''x'' (MMV_init ''x'' 0 1 0.5) fmempty\<rparr>
   \<and> GetVariableNames \<lparr>def = fmupd ''x'' (MMV_init ''x'' (0::real) 1 0.5) fmempty\<rparr>
       = Inr ([], \<lparr>def = fmupd ''x'' (MMV_init ''x'' 0 1 0.5) fmempty\<rparr>)
   \<and> Dimensions \<lparr>def = fmupd ''x'' (MMV_init ''x'' (0::real) 1 0.5) fmempty\<rparr>
       = Inr (1, \<lparr>def = fmupd ''x'' (MMV_init ''x'' 0 1 0.5) fmempty\<rparr>)"
  by (simp add: Define_eq GetVariableNames_def Dimensions_def HyperCube_new_def fcard_finsert_if)

text \<open>
  C5. The claim is that the description lists the (name, value) pairs, as in
  \<^verbatim>\<open>"x=5;y=0"\<close>. After \<^verbatim>\<open>Define("x", 0, 10, 5)\<close> and \<^verbatim>\<open>Define("y", -1, 1, 0)\<close> on a new
  hypercube, \<^verbatim>\<open>GetConfigurationDescription()\<close> returns the empty string.
\<close>

theorem GetConfigurationDescription_of_x_y:
  "Define ''x'' (0::real) 10 5 HyperCube_new
     = Inr \<lparr>def = fmupd ''x'' (MMV_init ''x'' 0 10 5) fmempty\<rparr>
   \<and> Define ''y'' (- 1) 1 0 \<lparr>def = fmupd ''x'' (MMV_init ''x'' (0::real) 10 5) fmempty\<rparr>
       = Inr \<lparr>def = fmupd ''y'' (MMV_init ''y'' (- 1) 1 0)
                       (fmupd ''x'' (MMV_init ''x'' 0 10 5) fmempty)\<rparr>
   \<and> GetConfigurationDescription
         \<lparr>def = fmupd ''y'' (MMV_init ''y'' (- 1) 1 0)
                  (fmupd ''x'' (MMV_init ''x'' (0::real) 10 5) fmempty)\<rparr>
       = Inr ([], \<lparr>def = fmupd ''y'' (MMV_init ''y'' (- 1) 1 0)
                             (fmupd ''x'' (MMV_init ''x'' 0 10 5) fmempty)\<rparr>)
   \<and> [] \<noteq> ''x=5;y=0''"
  by (simp add: Define_eq GetConfigurationDescription_def HyperCube_new_def)

text \<open>
  C6. The claim is that \<^verbatim>\<open>ApplyConfiguration\<close> fails when the target lacks a variable or
  a value is out of its bounds, and binds the values otherwise. With \<open>x\<close> defined on
  \<open>[0, 10]\<close> at the value 50, and a target that is an empty set of bindings, the call
  returns, and the target is what it was.
\<close>

theorem ApplyConfiguration_out_of_bounds:
  "Define ''x'' (0::real) 10 50 HyperCube_new
     = Inr \<lparr>def = fmupd ''x'' (MMV_init ''x'' 0 10 50) fmempty\<rparr>
   \<and> (10::real) < 50
   \<and> ApplyConfiguration (fmempty :: (string, real) fmap)
         \<lparr>def = fmupd ''x'' (MMV_init ''x'' (0::real) 10 50) fmempty\<rparr>
       = Inr (fmempty, \<lparr>def = fmupd ''x'' (MMV_init ''x'' 0 10 50) fmempty\<rparr>)
   \<and> ApplyConfiguration (fmempty :: (string, real) fmap)
         \<lparr>def = fmupd ''x'' (MMV_init ''x'' (0::real) 10 50) fmempty\<rparr>
       \<noteq> Inl IncompatibleSystemError"
  by (simp add: Define_eq ApplyConfiguration_def HyperCube_new_def)

section \<open>Properties of \<^verbatim>\<open>FitnessAssignedScores\<close>\<close>

text \<open>A three-way comparison that is negative for less and zero for equal is positive for
  greater.\<close>

lemma three_way_positive:
  fixes T_CompareTo :: "'t::linorder \<Rightarrow> 't \<Rightarrow> int"
  assumes "\<forall>x y. (T_CompareTo x y < 0 \<longleftrightarrow> x < y) \<and> (T_CompareTo x y = 0 \<longleftrightarrow> x = y)"
  shows "T_CompareTo x y > 0 \<longleftrightarrow> y < x"
proof -
  have "T_CompareTo x y > 0 \<longleftrightarrow> \<not> T_CompareTo x y < 0 \<and> T_CompareTo x y \<noteq> 0"
    by auto
  also have "\<dots> \<longleftrightarrow> \<not> x < y \<and> x \<noteq> y"
    using assms by simp
  also have "\<dots> \<longleftrightarrow> y < x"
    by auto
  finally show ?thesis .
qed

lemma numeric_CompareTo_three_way:
  "\<forall>x y :: 't::linorder.
     (numeric_CompareTo x y < 0 \<longleftrightarrow> x < y) \<and> (numeric_CompareTo x y = 0 \<longleftrightarrow> x = y)"
  by (simp add: numeric_CompareTo_def)

text \<open>
  C8. When the \<^verbatim>\<open>CompareTo\<close> of the fitness type is the comparison of its numeric order,
  \<^verbatim>\<open>FitnessAssignedScores::CompareTo\<close> depends on the two fitness values only (scores that
  differ change nothing), it is negative, zero or positive as the first fitness value is
  less than, equal to or greater than the second, and the order is transitive in both
  directions and on ties.
\<close>

theorem CompareTo_by_fitness:
  fixes T_CompareTo :: "'t::linorder \<Rightarrow> 't \<Rightarrow> int"
    and a b c a' b' :: "('t, 's) FitnessAssignedScores"
  assumes "\<forall>x y. (T_CompareTo x y < 0 \<longleftrightarrow> x < y) \<and> (T_CompareTo x y = 0 \<longleftrightarrow> x = y)"
  shows "(FitnessValue a = FitnessValue a' \<and> FitnessValue b = FitnessValue b'
            \<longrightarrow> CompareTo T_CompareTo a b = CompareTo T_CompareTo a' b')
       \<and> (CompareTo T_CompareTo a b < 0 \<longleftrightarrow> FitnessValue a < FitnessValue b)
       \<and> (CompareTo T_CompareTo a b = 0 \<longleftrightarrow> FitnessValue a = FitnessValue b)
       \<and> (CompareTo T_CompareTo a b > 0 \<longleftrightarrow> FitnessValue a > FitnessValue b)
       \<and> (CompareTo T_CompareTo a b < 0 \<and> CompareTo T_CompareTo b c < 0
            \<longrightarrow> CompareTo T_CompareTo a c < 0)
       \<and> (CompareTo T_CompareTo a b > 0 \<and> CompareTo T_CompareTo b c > 0
            \<longrightarrow> CompareTo T_CompareTo a c > 0)
       \<and> (CompareTo T_CompareTo a b = 0 \<and> CompareTo T_CompareTo b c = 0
            \<longrightarrow> CompareTo T_CompareTo a c = 0)"
  using assms three_way_positive [OF assms]
  by (auto simp: CompareTo_def)

theorem CompareTo_by_fitness_witness:
  "(\<forall>x y :: real.
      (numeric_CompareTo x y < 0 \<longleftrightarrow> x < y) \<and> (numeric_CompareTo x y = 0 \<longleftrightarrow> x = y))
   \<and> CompareTo numeric_CompareTo \<lparr>Scores = ''p'', FitnessValue = 1::real\<rparr>
         \<lparr>Scores = ''r'', FitnessValue = 2\<rparr>
       = CompareTo numeric_CompareTo \<lparr>Scores = ''q'', FitnessValue = 1::real\<rparr>
         \<lparr>Scores = ''r'', FitnessValue = 2\<rparr>
   \<and> CompareTo numeric_CompareTo \<lparr>Scores = ''p'', FitnessValue = 1::real\<rparr>
         \<lparr>Scores = ''r'', FitnessValue = 2\<rparr> < 0
   \<and> CompareTo numeric_CompareTo \<lparr>Scores = ''r'', FitnessValue = 2::real\<rparr>
         \<lparr>Scores = ''s'', FitnessValue = 3\<rparr> < 0
   \<and> CompareTo numeric_CompareTo \<lparr>Scores = ''p'', FitnessValue = 1::real\<rparr>
         \<lparr>Scores = ''s'', FitnessValue = 3\<rparr> < 0
   \<and> CompareTo numeric_CompareTo \<lparr>Scores = ''p'', FitnessValue = 1::real\<rparr>
         \<lparr>Scores = ''q'', FitnessValue = 1\<rparr> = 0"
proof -
  let ?p = "\<lparr>Scores = ''p'', FitnessValue = 1::real\<rparr>"
  let ?q = "\<lparr>Scores = ''q'', FitnessValue = 1::real\<rparr>"
  let ?r = "\<lparr>Scores = ''r'', FitnessValue = 2::real\<rparr>"
  let ?s = "\<lparr>Scores = ''s'', FitnessValue = 3::real\<rparr>"
  have h: "\<forall>x y :: real.
      (numeric_CompareTo x y < 0 \<longleftrightarrow> x < y) \<and> (numeric_CompareTo x y = 0 \<longleftrightarrow> x = y)"
    by (rule numeric_CompareTo_three_way)
  note pr = CompareTo_by_fitness [OF h, where a = ?p and a' = ?q and b = ?r and b' = ?r
      and c = ?s]
  note rs = CompareTo_by_fitness [OF h, where a = ?r and b = ?s]
  note pq = CompareTo_by_fitness [OF h, where a = ?p and b = ?q]
  have same: "CompareTo numeric_CompareTo ?p ?r = CompareTo numeric_CompareTo ?q ?r"
    by (rule pr [THEN conjunct1, THEN mp]) simp
  have pr_less: "CompareTo numeric_CompareTo ?p ?r < 0"
    by (simp add: pr [THEN conjunct2, THEN conjunct1])
  have rs_less: "CompareTo numeric_CompareTo ?r ?s < 0"
    by (simp add: rs [THEN conjunct2, THEN conjunct1])
  have ps_less: "CompareTo numeric_CompareTo ?p ?s < 0"
    by (rule pr [THEN conjunct2, THEN conjunct2, THEN conjunct2, THEN conjunct2,
          THEN conjunct1, THEN mp]) (simp only: pr_less rs_less)
  have tie: "CompareTo numeric_CompareTo ?p ?q = 0"
    by (simp add: pq [THEN conjunct2, THEN conjunct2, THEN conjunct1])
  show ?thesis
    using h same pr_less rs_less ps_less tie by (intro conjI)
qed

section \<open>Properties of \<^verbatim>\<open>IObjectiveEvaluator\<close>\<close>

text \<open>
  C10. An evaluator of a class that does not override \<^verbatim>\<open>IsCloneable\<close> answers \<open>false\<close>.
\<close>

theorem IsCloneable_default:
  assumes "IsCloneable_override e = None"
  shows "IsCloneable e = False"
  using assms by (simp add: IsCloneable_def IObjectiveEvaluator_IsCloneable_def)

theorem IsCloneable_default_witness:
  "IsCloneable_override \<lparr>EvaluateScore = (\<lambda>c :: real. c + 1), IsCloneable_override = None\<rparr> = None
   \<and> IsCloneable \<lparr>EvaluateScore = (\<lambda>c :: real. c + 1), IsCloneable_override = None\<rparr> = False"
  using IsCloneable_default
    [of "\<lparr>EvaluateScore = (\<lambda>c :: real. c + 1), IsCloneable_override = None\<rparr>"]
  by simp

section \<open>Properties of \<^verbatim>\<open>GetCentroid\<close>\<close>

text \<open>The centroid keeps the variables and the bounds of the first point, and holds the
  given value for each of them.\<close>

lemma value_of_centroid_map:
  "value_of (map (\<lambda>(k, minv, maxv, val). (k, minv, maxv, f k)) p) k
     = (if k \<in> fst ` set p then f k else 0)"
  by (induction p) (auto simp: value_of_def)

lemma bounds_centroid_map:
  "bounds (map (\<lambda>(k, minv, maxv, val). (k, minv, maxv, f k)) p) = bounds p"
  by (induction p) (auto simp: bounds_def)

text \<open>
  C7. The centroid of no point is an \<open>EmptyInputError\<close>; that of points of which one has
  variables or bounds that differ from the first point's is an
  \<open>IncompatibleGeometryError\<close>; that of points that all have the same variables with the
  same bounds is a point with these bounds, whose value for each variable is the
  arithmetic mean of the points' values for it.
\<close>

theorem GetCentroid_mean:
  "GetCentroid [] = Inl EmptyInputError
   \<and> (points \<noteq> [] \<and> (\<exists>q \<in> set points. set (bounds q) \<noteq> set (bounds (hd points)))
        \<longrightarrow> GetCentroid points = Inl IncompatibleGeometryError)
   \<and> (points \<noteq> [] \<and> (\<forall>q \<in> set points. set (bounds q) = set (bounds (hd points)))
        \<longrightarrow> (\<exists>c. GetCentroid points = Inr c
              \<and> bounds c = bounds (hd points)
              \<and> (\<forall>k \<in> fst ` set (hd points). value_of c k = mean_value points k)))"
proof (cases points)
  case Nil
  then show ?thesis by (simp add: GetCentroid_def)
next
  case (Cons p ps)
  then show ?thesis
    by (auto simp: GetCentroid_def list_all_iff bounds_centroid_map value_of_centroid_map)
qed

text \<open>The centroid of \<open>(x = 0, y = 0)\<close> and \<open>(x = 10, y = 2)\<close>, with \<open>x\<close> in \<open>[0, 10]\<close> and
  \<open>y\<close> in \<open>[0, 4]\<close>, is \<open>(x = 5, y = 1)\<close>; with \<open>x\<close> in \<open>[0, 20]\<close> for the second point instead,
  the geometry is incompatible.\<close>

theorem GetCentroid_mean_witness:
  "[[(''x'', 0, 10, 0), (''y'', 0, 4, 0)], [(''x'', 0, 10, 10), (''y'', 0, 4, 2)]]
     \<noteq> ([] :: ParameterSpace list)
   \<and> set (bounds [(''x'', 0, 10, 10), (''y'', 0, 4, 2)])
       = set (bounds [(''x'', 0, 10, 0), (''y'', 0, 4, 0)])
   \<and> (\<exists>c. GetCentroid [[(''x'', 0, 10, 0), (''y'', 0, 4, 0)], [(''x'', 0, 10, 10), (''y'', 0, 4, 2)]]
            = Inr c
          \<and> bounds c = [(''x'', 0, 10), (''y'', 0, 4)]
          \<and> value_of c ''x'' = 5
          \<and> value_of c ''y'' = 1)
   \<and> set (bounds [(''x'', 0, 20, 10), (''y'', 0, 4, 2)])
       \<noteq> set (bounds [(''x'', 0, 10, 0), (''y'', 0, 4, 0)])
   \<and> GetCentroid [[(''x'', 0, 10, 0), (''y'', 0, 4, 0)], [(''x'', 0, 20, 10), (''y'', 0, 4, 2)]]
       = Inl IncompatibleGeometryError"
proof -
  let ?p1 = "[(''x'', 0, 10, 0), (''y'', 0, 4, 0)] :: ParameterSpace"
  let ?p2 = "[(''x'', 0, 10, 10), (''y'', 0, 4, 2)] :: ParameterSpace"
  let ?p3 = "[(''x'', 0, 20, 10), (''y'', 0, 4, 2)] :: ParameterSpace"
  have same: "set (bounds ?p2) = set (bounds ?p1)"
    by (simp add: bounds_def)
  have differ: "set (bounds ?p3) \<noteq> set (bounds ?p1)"
  proof -
    have "(''x'', 0, 20) \<in> set (bounds ?p3)"
      by (simp add: bounds_def)
    moreover have "(''x'', 0, 20) \<notin> set (bounds ?p1)"
      by (simp add: bounds_def)
    ultimately show ?thesis
      by blast
  qed
  have mean: "\<exists>c. GetCentroid [?p1, ?p2] = Inr c
          \<and> bounds c = [(''x'', 0, 10), (''y'', 0, 4)]
          \<and> value_of c ''x'' = 5
          \<and> value_of c ''y'' = 1"
    using GetCentroid_mean [of "[?p1, ?p2]"] same
    by (simp add: mean_value_def value_of_def bounds_def)
  have mismatch: "GetCentroid [?p1, ?p3] = Inl IncompatibleGeometryError"
    using GetCentroid_mean [of "[?p1, ?p3]"] differ
    by simp
  show ?thesis
    using same differ mean mismatch by simp
qed

end
